theory Spec2Isabelle
  imports Main
begin

section \<open>Data model (backend/app/models.py)\<close>

text \<open>
  Timestamps and durations are integers (a number of time units since the epoch, and a number
  of time units); a UUID is its string form. A nullable column is an \<open>option\<close>.
  The ORM presents an invitation together with its relationships (assessment and seed,
  candidate repository, access tokens, submissions); the record below is that object graph.
\<close>

type_synonym datetime = int
type_synonym timedelta = int
type_synonym uuid = string

datatype InvitationStatus = Sent | Accepted | Started | Submitted | Expired | Revoked

record Seed =
  seed_org_id :: nat
  seed_repo_full_name :: string
  default_branch :: string
  latest_main_sha :: "string option"

record Assessment =
  assessment_org_id :: nat
  time_to_complete :: timedelta
  seed :: "Seed option"

record CandidateRepo =
  seed_sha_pinned :: string
  repo_full_name :: string
  repo_html_url :: "string option"
  github_repo_id :: "int option"
  active :: bool
  archived :: bool

record AccessToken =
  token_repo_full_name :: string
  opaque_token_hash :: string
  expires_at :: datetime
  revoked :: bool

record Submission =
  final_sha :: string
  submission_repo_html_url :: "string option"
  video_url :: "string option"

record Invitation =
  invitation_id :: uuid
  status :: InvitationStatus
  start_deadline :: "datetime option"
  complete_deadline :: "datetime option"
  start_link_token_hash :: string
  started_at :: "datetime option"
  submitted_at :: "datetime option"
  expired_at :: "datetime option"
  assessment :: "Assessment option"
  candidate_repo :: "CandidateRepo option"
  access_tokens :: "AccessToken list"
  submissions :: "Submission list"

record GitHubInstallation =
  installation_id :: int
  account_login :: string

text \<open>
  The persisted state: the invitations table (each row with its relationships) and the
  GitHub App installations keyed by organisation.
\<close>

record Database =
  invitations :: "Invitation list"
  github_installations :: "(nat \<times> GitHubInstallation) list"

section \<open>Errors and collaborators\<close>

text \<open>
  \<open>HTTPException status_code detail\<close> is FastAPI's exception. An exception that no handler
  catches reaches the framework, which answers 500.
\<close>

datatype HTTPException = HTTPException nat string

definition internal_server_error :: HTTPException where
  "internal_server_error = HTTPException 500 ''Internal Server Error''"

text \<open>
  What a call of the GitHub client can raise: \<open>GitHubAppError\<close> (github_app.py), or any
  other exception (a transport error of the HTTP library, for instance).
\<close>

datatype exn = GitHubAppError string | OtherException string

record GitHubRepository =
  github_id :: int
  full_name :: string
  html_url :: "string option"

text \<open>
  The GitHub installation client as the handlers use it: each method is the outcome of the
  remote call for its arguments.
\<close>

record GitHub =
  refresh_branch_sha :: "string \<Rightarrow> string \<Rightarrow> exn + string"
  create_candidate_repository :: "string \<Rightarrow> string \<Rightarrow> string \<Rightarrow> exn + GitHubRepository"
  create_repository_access_token :: "int \<Rightarrow> exn + (string \<times> datetime)"
  archive_repository :: "string \<Rightarrow> exn + unit"

section \<open>The session: loading and committing\<close>

text \<open>
  A handler works on the objects it loaded; only \<open>session.commit()\<close> writes them back.
  A handler that raises before its commit leaves the session to be closed by
  \<open>get_session\<close> (database.py), which discards the pending changes: the persisted state
  is the one before the request. Violations of database constraints at commit time are
  outside the model.
\<close>

definition commit :: "Database \<Rightarrow> Invitation \<Rightarrow> Database" where
  "commit db invitation =
     db\<lparr>invitations :=
          map (\<lambda>r. if invitation_id r = invitation_id invitation then invitation else r)
            (invitations db)\<rparr>"

definition get_invitation_by_token ::
  "(string \<Rightarrow> string) \<Rightarrow> Database \<Rightarrow> string \<Rightarrow> HTTPException + Invitation" where
  "get_invitation_by_token hash_token db token =
     (case find (\<lambda>r. start_link_token_hash r = hash_token token) (invitations db) of
        None \<Rightarrow> Inl (HTTPException 404 ''Invitation not found'')
      | Some invitation \<Rightarrow> Inr invitation)"

definition load_invitation :: "Database \<Rightarrow> uuid \<Rightarrow> HTTPException + Invitation" where
  "load_invitation db invitation_uuid =
     (case find (\<lambda>r. invitation_id r = invitation_uuid) (invitations db) of
        None \<Rightarrow> Inl (HTTPException 404 ''Invitation not found'')
      | Some invitation \<Rightarrow> Inr invitation)"

definition require_github_installation_client ::
  "Database \<Rightarrow> nat \<Rightarrow> HTTPException + GitHubInstallation" where
  "require_github_installation_client db org =
     (case map_of (github_installations db) org of
        None \<Rightarrow> Inl (HTTPException 409
          ''Connect the GitHub App to this project before performing GitHub actions.'')
      | Some installation \<Rightarrow> Inr installation)"

section \<open>Candidate endpoints (backend/app/routes/candidate.py)\<close>

record StartAssessmentResponse =
  response_invitation_id :: uuid
  response_status :: InvitationStatus
  response_started_at :: "datetime option"
  response_complete_deadline :: "datetime option"
  response_candidate_repo :: CandidateRepo
  access_token :: string
  access_token_expires_at :: datetime

definition deadline_passed :: "datetime option \<Rightarrow> datetime \<Rightarrow> bool" where
  "deadline_passed deadline now = (case deadline of None \<Rightarrow> False | Some d \<Rightarrow> now > d)"

definition revoke_tokens :: "AccessToken list \<Rightarrow> AccessToken list" where
  "revoke_tokens tokens =
     map (\<lambda>token_model. if \<not> revoked token_model then token_model\<lparr>revoked := True\<rparr>
                         else token_model) tokens"

text \<open>
  \<open>provision_candidate_repo\<close> is the branch of \<open>start_assessment\<close> that creates the candidate
  repository when the invitation has none, and reuses the existing one otherwise.
\<close>

definition provision_candidate_repo ::
  "GitHub \<Rightarrow> Invitation \<Rightarrow> Seed \<Rightarrow> string \<Rightarrow> string \<Rightarrow> HTTPException + CandidateRepo" where
  "provision_candidate_repo github invitation seed_model branch latest_seed_sha =
     (case candidate_repo invitation of
        None \<Rightarrow>
          (case create_candidate_repository github (seed_repo_full_name seed_model) branch
                  (take 10 (invitation_id invitation)) of
             Inl (GitHubAppError msg) \<Rightarrow> Inl (HTTPException 502 msg)
           | Inl (OtherException msg) \<Rightarrow> Inl internal_server_error
           | Inr repo_info \<Rightarrow>
               Inr \<lparr>seed_sha_pinned = latest_seed_sha,
                    repo_full_name = full_name repo_info,
                    repo_html_url = html_url repo_info,
                    github_repo_id = Some (github_id repo_info),
                    active = True,
                    archived = False\<rparr>)
      | Some existing \<Rightarrow> Inr existing)"

definition start_assessment ::
  "(string \<Rightarrow> string) \<Rightarrow> GitHub \<Rightarrow> datetime \<Rightarrow> Database \<Rightarrow> string
     \<Rightarrow> (HTTPException + StartAssessmentResponse) \<times> Database" where
  "start_assessment hash_token github now db token =
     (case get_invitation_by_token hash_token db token of
        Inl e \<Rightarrow> (Inl e, db)
      | Inr invitation \<Rightarrow>
     if deadline_passed (start_deadline invitation) now then
       (Inl (HTTPException 410 ''Invitation start window has expired''),
        commit db (invitation\<lparr>status := Expired, expired_at := Some now\<rparr>))
     else if status invitation = Started \<or> status invitation = Submitted then
       (Inl (HTTPException 409 ''Assessment already started''), db)
     else
     (case assessment invitation of
        None \<Rightarrow> (Inl (HTTPException 400 ''Assessment seed configuration missing''), db)
      | Some assessment_model \<Rightarrow>
     (case seed assessment_model of
        None \<Rightarrow> (Inl (HTTPException 400 ''Assessment seed configuration missing''), db)
      | Some seed_model \<Rightarrow>
     if latest_main_sha seed_model = None \<or> latest_main_sha seed_model = Some [] then
       (Inl (HTTPException 400 ''Seed repository does not have a pinned main SHA''), db)
     else
     let started_invitation =
           invitation\<lparr>status := Started,
                      started_at := Some now,
                      complete_deadline := Some (now + time_to_complete assessment_model)\<rparr>
     in
     (case require_github_installation_client db (seed_org_id seed_model) of
        Inl e \<Rightarrow> (Inl e, db)
      | Inr installation \<Rightarrow>
     let branch = (if default_branch seed_model = [] then ''main''
                   else default_branch seed_model)
     in
     (case refresh_branch_sha github (seed_repo_full_name seed_model) branch of
        Inl (GitHubAppError msg) \<Rightarrow> (Inl (HTTPException 502 msg), db)
      | Inl (OtherException msg) \<Rightarrow> (Inl internal_server_error, db)
      | Inr latest_seed_sha \<Rightarrow>
     let refreshed_seed =
           (if Some latest_seed_sha \<noteq> latest_main_sha seed_model
            then seed_model\<lparr>latest_main_sha := Some latest_seed_sha\<rparr> else seed_model)
     in
     (case provision_candidate_repo github invitation seed_model branch latest_seed_sha of
        Inl e \<Rightarrow> (Inl e, db)
      | Inr candidate_repo_model \<Rightarrow>
     let revoked_tokens = revoke_tokens (access_tokens invitation)
     in
     (case github_repo_id candidate_repo_model of
        None \<Rightarrow>
          (Inl (HTTPException 500 ''Candidate repository is missing GitHub metadata''), db)
      | Some repo_id \<Rightarrow>
     (case create_repository_access_token github repo_id of
        Inl (GitHubAppError msg) \<Rightarrow> (Inl (HTTPException 502 msg), db)
      | Inl (OtherException msg) \<Rightarrow> (Inl internal_server_error, db)
      | Inr (github_token, github_expires_at) \<Rightarrow>
     let new_token =
           \<lparr>token_repo_full_name = repo_full_name candidate_repo_model,
            opaque_token_hash = hash_token github_token,
            expires_at = github_expires_at,
            revoked = False\<rparr>;
         committed =
           started_invitation
             \<lparr>assessment := Some (assessment_model\<lparr>seed := Some refreshed_seed\<rparr>),
              candidate_repo := Some candidate_repo_model,
              access_tokens := revoked_tokens @ [new_token]\<rparr>
     in
       (Inr \<lparr>response_invitation_id = invitation_id committed,
             response_status = status committed,
             response_started_at = started_at committed,
             response_complete_deadline = complete_deadline committed,
             response_candidate_repo = candidate_repo_model,
             access_token = github_token,
             access_token_expires_at = github_expires_at\<rparr>,
        commit db committed)))))))))"

record SubmitRequest =
  request_final_sha :: "string option"
  request_repo_html_url :: "string option"
  request_video_url :: "string option"

record SubmitResponse =
  submit_invitation_id :: uuid
  submit_final_sha :: string
  submit_submitted_at :: "datetime option"
  submit_status :: InvitationStatus
  submit_video_url :: "string option"

text \<open>Python's \<open>a or b\<close> on an optional string: \<open>None\<close> and the empty string are falsy.\<close>

definition or_else :: "string option \<Rightarrow> string \<Rightarrow> string" where
  "or_else a b = (case a of None \<Rightarrow> b | Some s \<Rightarrow> if s = [] then b else s)"

definition or_else_opt :: "string option \<Rightarrow> string option \<Rightarrow> string option" where
  "or_else_opt a b = (case a of None \<Rightarrow> b | Some s \<Rightarrow> if s = [] then b else Some s)"

definition submit_assessment ::
  "(string \<Rightarrow> string) \<Rightarrow> GitHub \<Rightarrow> datetime \<Rightarrow> Database \<Rightarrow> string \<Rightarrow> SubmitRequest
     \<Rightarrow> (HTTPException + SubmitResponse) \<times> Database" where
  "submit_assessment hash_token github now db token payload =
     (case get_invitation_by_token hash_token db token of
        Inl e \<Rightarrow> (Inl e, db)
      | Inr invitation \<Rightarrow>
     (case assessment invitation of
        None \<Rightarrow> (Inl (HTTPException 404 ''Assessment not found''), db)
      | Some assessment_model \<Rightarrow>
     if status invitation \<noteq> Started then
       (Inl (HTTPException 409 ''Assessment is not in a started state''), db)
     else
     (case candidate_repo invitation of
        None \<Rightarrow>
          (Inl (HTTPException 400 ''Candidate repository has not been provisioned''), db)
      | Some candidate_repo_model \<Rightarrow>
     (case seed assessment_model of
        None \<Rightarrow> (Inl (HTTPException 404 ''Assessment seed not found''), db)
      | Some seed_model \<Rightarrow>
     let submission =
           \<lparr>final_sha = or_else (request_final_sha payload)
                           (seed_sha_pinned candidate_repo_model),
            submission_repo_html_url =
              or_else_opt (request_repo_html_url payload) (repo_html_url candidate_repo_model),
            video_url = request_video_url payload\<rparr>;
         submitted_invitation =
           invitation\<lparr>status := Submitted,
                      submitted_at := Some now,
                      submissions := submissions invitation @ [submission],
                      access_tokens := revoke_tokens (access_tokens invitation)\<rparr>
     in
     (case require_github_installation_client db (seed_org_id seed_model) of
        Inl e \<Rightarrow> (Inl e, db)
      | Inr installation \<Rightarrow>
     (case archive_repository github (repo_full_name candidate_repo_model) of
        Inl (OtherException msg) \<Rightarrow> (Inl internal_server_error, db)
      | outcome \<Rightarrow>
     let archived_repo =
           (case outcome of
              Inr u \<Rightarrow> candidate_repo_model\<lparr>archived := True, active := False\<rparr>
            | Inl e \<Rightarrow> candidate_repo_model\<lparr>active := False\<rparr>);
         committed = submitted_invitation\<lparr>candidate_repo := Some archived_repo\<rparr>
     in
       (Inr \<lparr>submit_invitation_id = invitation_id committed,
             submit_final_sha = final_sha submission,
             submit_submitted_at = submitted_at committed,
             submit_status = status committed,
             submit_video_url = video_url submission\<rparr>,
        commit db committed)))))))"

section \<open>Admin endpoints (backend/app/routes/invitations.py)\<close>

text \<open>
  The admin endpoints take the path parameter, parse it with \<open>uuid.UUID\<close> (the parameter
  \<open>UUID\<close>, \<open>None\<close> for a \<open>ValueError\<close>) and check the caller with
  \<open>require_org_membership_role\<close>, which only reads: the parameter of that name is its
  outcome for the organisation, \<open>Some\<close> the exception it raises.
\<close>

record AdminInvitation =
  admin_invitation_id :: uuid
  admin_status :: InvitationStatus
  admin_start_deadline :: "datetime option"
  admin_complete_deadline :: "datetime option"
  admin_started_at :: "datetime option"
  admin_submitted_at :: "datetime option"

definition admin_invitation :: "Invitation \<Rightarrow> AdminInvitation" where
  "admin_invitation invitation =
     \<lparr>admin_invitation_id = invitation_id invitation,
      admin_status = status invitation,
      admin_start_deadline = start_deadline invitation,
      admin_complete_deadline = complete_deadline invitation,
      admin_started_at = started_at invitation,
      admin_submitted_at = submitted_at invitation\<rparr>"

text \<open>Python's \<open>a or b\<close> on an optional timestamp: a \<open>datetime\<close> is always truthy.\<close>

definition or_now :: "datetime option \<Rightarrow> datetime \<Rightarrow> datetime option" where
  "or_now t now = (case t of None \<Rightarrow> Some now | Some v \<Rightarrow> Some v)"

definition mark_invitation_submitted ::
  "(string \<Rightarrow> uuid option) \<Rightarrow> (nat \<Rightarrow> HTTPException option) \<Rightarrow> datetime \<Rightarrow> Database \<Rightarrow> string
     \<Rightarrow> (HTTPException + AdminInvitation) \<times> Database" where
  "mark_invitation_submitted UUID require_org_membership_role now db invitation_id_param =
     (case UUID invitation_id_param of
        None \<Rightarrow> (Inl (HTTPException 400 ''Invalid invitation id''), db)
      | Some invitation_uuid \<Rightarrow>
     (case load_invitation db invitation_uuid of
        Inl e \<Rightarrow> (Inl e, db)
      | Inr invitation \<Rightarrow>
     (case assessment invitation of
        None \<Rightarrow> (Inl (HTTPException 500 ''Invitation missing assessment''), db)
      | Some assessment_model \<Rightarrow>
     (case require_org_membership_role (assessment_org_id assessment_model) of
        Some e \<Rightarrow> (Inl e, db)
      | None \<Rightarrow>
     if status invitation \<noteq> Submitted then
       (let changed =
              invitation\<lparr>status := Submitted,
                         submitted_at := or_now (submitted_at invitation) now\<rparr>
        in (Inr (admin_invitation changed), commit db changed))
     else (Inr (admin_invitation invitation), db)))))"

definition revoke_invitation ::
  "(string \<Rightarrow> uuid option) \<Rightarrow> (nat \<Rightarrow> HTTPException option) \<Rightarrow> datetime \<Rightarrow> Database \<Rightarrow> string
     \<Rightarrow> (HTTPException + AdminInvitation) \<times> Database" where
  "revoke_invitation UUID require_org_membership_role now db invitation_id_param =
     (case UUID invitation_id_param of
        None \<Rightarrow> (Inl (HTTPException 400 ''Invalid invitation id''), db)
      | Some invitation_uuid \<Rightarrow>
     (case load_invitation db invitation_uuid of
        Inl e \<Rightarrow> (Inl e, db)
      | Inr invitation \<Rightarrow>
     (case assessment invitation of
        None \<Rightarrow> (Inl (HTTPException 500 ''Invitation missing assessment''), db)
      | Some assessment_model \<Rightarrow>
     (case require_org_membership_role (assessment_org_id assessment_model) of
        Some e \<Rightarrow> (Inl e, db)
      | None \<Rightarrow>
     if status invitation \<noteq> Revoked then
       (let changed =
              invitation\<lparr>status := Revoked,
                         expired_at := or_now (expired_at invitation) now\<rparr>
        in (Inr (admin_invitation changed), commit db changed))
     else (Inr (admin_invitation invitation), db)))))"

section \<open>Python string operations\<close>

text \<open>
  A string is a list of characters, each a code point below 256. \<open>py_isspace\<close> is the set of
  characters that \<open>str.strip()\<close> and \<open>str.split()\<close> treat as whitespace in that range.
\<close>

definition py_isspace :: "char \<Rightarrow> bool" where
  "py_isspace c =
     (c \<in> set [CHR 0x09, CHR 0x0A, CHR 0x0B, CHR 0x0C, CHR 0x0D, CHR 0x1C, CHR 0x1D,
               CHR 0x1E, CHR 0x1F, CHR 0x20, CHR 0x85, CHR 0xA0])"

definition py_strip :: "string \<Rightarrow> string" where
  "py_strip s = rev (dropWhile py_isspace (rev (dropWhile py_isspace s)))"

text \<open>\<open>s.split("\n")[0]\<close>: the text before the first line feed.\<close>

definition first_line :: "string \<Rightarrow> string" where
  "first_line s = takeWhile (\<lambda>c. c \<noteq> CHR 0x0A) s"

text \<open>\<open>s.split()\<close>: the maximal runs of characters that are not whitespace.\<close>

fun split_words :: "string \<Rightarrow> string \<Rightarrow> string list" where
  "split_words word [] = (if word = [] then [] else [word])"
| "split_words word (c # cs) =
     (if py_isspace c then (if word = [] then split_words [] cs else word # split_words [] cs)
      else split_words (word @ [c]) cs)"

definition py_split :: "string \<Rightarrow> string list" where
  "py_split s = split_words [] s"

definition startswith :: "string \<Rightarrow> string \<Rightarrow> bool" where
  "startswith s prefix = (take (length prefix) s = prefix)"

text \<open>\<open>sub in s\<close>.\<close>

fun py_in :: "string \<Rightarrow> string \<Rightarrow> bool" where
  "py_in sub [] = (sub = [])"
| "py_in sub (c # cs) = (startswith (c # cs) sub \<or> py_in sub cs)"

text \<open>
  \<open>s.replace(old, new)\<close> for a non-empty \<open>old\<close>: every occurrence, found from the left
  and without overlap, is replaced.
\<close>

function py_replace :: "string \<Rightarrow> string \<Rightarrow> string \<Rightarrow> string" where
  "py_replace old new [] = []"
| "py_replace old new (c # cs) =
     (if old \<noteq> [] \<and> startswith (c # cs) old
      then new @ py_replace old new (drop (length old) (c # cs))
      else c # py_replace old new cs)"
  by pat_completeness auto
termination
  by (relation "measure (\<lambda>(old, new, s). length s)") auto

text \<open>\<open>str(n)\<close> for a natural number.\<close>

definition digit_char :: "nat \<Rightarrow> char" where
  "digit_char d =
     (if d = 0 then CHR ''0'' else if d = 1 then CHR ''1'' else if d = 2 then CHR ''2''
      else if d = 3 then CHR ''3'' else if d = 4 then CHR ''4'' else if d = 5 then CHR ''5''
      else if d = 6 then CHR ''6'' else if d = 7 then CHR ''7'' else if d = 8 then CHR ''8''
      else CHR ''9'')"

function str_nat :: "nat \<Rightarrow> string" where
  "str_nat n = (if n < 10 then [digit_char n] else str_nat (n div 10) @ [digit_char (n mod 10)])"
  by pat_completeness auto
termination
  by (relation "measure id") auto

section \<open>The GitHub request helper (backend/app/github_app.py)\<close>

text \<open>
  An HTTP response carries its status code, its text and its decoded JSON body. A body is
  given with the shape of the GitHub endpoint it comes from: an optional field is \<open>None\<close>
  when the key is absent, and a key that is present holds a value of the endpoint's type.
\<close>

record 'a Response =
  status_code :: nat
  response_text :: string
  json :: 'a

definition failure_message :: "string \<Rightarrow> nat \<Rightarrow> string \<Rightarrow> string" where
  "failure_message path code detail =
     ''GitHub API request to '' @ path @ '' failed with '' @ str_nat code @ '': '' @ detail"

text \<open>
  \<open>request\<close> is \<open>GitHubAppClient._request\<close> applied to the outcome of \<open>client.request\<close>
  (a transport exception or a response). After the test against \<open>expected_status\<close> it calls
  \<open>response.raise_for_status()\<close>, which raises for every status that is not 2xx; the helper
  turns that into a \<open>GitHubAppError\<close>.
\<close>

definition is_success :: "nat \<Rightarrow> bool" where
  "is_success code = (200 \<le> code \<and> code < 300)"

definition request :: "exn + 'a Response \<Rightarrow> string \<Rightarrow> nat list \<Rightarrow> exn + 'a Response" where
  "request outcome path expected_status =
     (case outcome of
        Inl e \<Rightarrow> Inl e
      | Inr response \<Rightarrow>
          if expected_status \<noteq> [] \<and> status_code response \<notin> set expected_status then
            Inl (GitHubAppError
                   (failure_message path (status_code response) (response_text response)))
          else if is_success (status_code response) then Inr response
          else
            Inl (GitHubAppError
                   (failure_message path (status_code response) (response_text response))))"

section \<open>The diff endpoint (backend/app/routes/reviews.py)\<close>

text \<open>The compare result of GitHub, with the fields the endpoint reads.\<close>

record FileData =
  file_status :: "string option"
  file_additions :: "int option"
  file_deletions :: "int option"
  file_changes :: "int option"
  file_patch :: "string option"
  file_filename :: "string option"
  file_previous_filename :: "string option"
  file_blob_url :: "string option"

record CommitData =
  commit_sha :: "string option"
  commit_message :: "string option"
  commit_author_name :: "string option"
  commit_author_date :: "string option"

record CompareData =
  base_commit :: "(string \<times> string) list option"
  merge_base_commit :: "(string \<times> string) list option"
  head_commit :: "(string \<times> string) list option"
  compare_files :: "FileData list option"
  compare_commits :: "CommitData list option"
  total_commits :: "int option"
  compare_html_url :: "string option"

record DiffFile =
  filename :: string
  diff_status :: string
  additions :: int
  deletions :: int
  changes :: int
  patch :: "string option"
  blobUrl :: "string option"
  previousFilename :: "string option"

record DiffCommit =
  sha :: string
  message :: string
  author :: string
  date :: datetime

record DiffResponse =
  files :: "DiffFile list"
  totalAdditions :: int
  totalDeletions :: int
  totalChanges :: int
  commits :: "DiffCommit list"
  baseSha :: string
  headSha :: string
  htmlUrl :: "string option"

text \<open>\<open>d.get(key, default)\<close> on an optional field.\<close>

definition get_default :: "'a option \<Rightarrow> 'a \<Rightarrow> 'a" where
  "get_default field fallback = (case field of None \<Rightarrow> fallback | Some v \<Rightarrow> v)"

definition classify_status :: "string option \<Rightarrow> string" where
  "classify_status st =
     (if st = Some ''added'' then ''added''
      else if st = Some ''removed'' then ''removed''
      else if st = Some ''renamed'' then ''renamed''
      else ''modified'')"

definition normalize_patch :: "FileData \<Rightarrow> string \<Rightarrow> string option" where
  "normalize_patch file_data st =
     (case file_patch file_data of
        None \<Rightarrow> None
      | Some p \<Rightarrow>
          if p = [] then Some p
          else
            let name = get_default (file_filename file_data) [];
                previous_filename = or_else (file_previous_filename file_data) name
            in if startswith p ''diff --git'' then Some p
               else
                 let old_path = (if st \<noteq> ''added'' then previous_filename else ''/dev/null'');
                     new_path = (if st \<noteq> ''removed'' then name else ''/dev/null'')
                 in if py_in [CHR 0x0A, CHR ''-'', CHR ''-'', CHR ''-'', CHR '' ''] p then
                      Some (''diff --git a/'' @ old_path @ '' b/'' @ new_path
                            @ [CHR 0x0A] @ p)
                    else
                      Some (''diff --git a/'' @ old_path @ '' b/'' @ new_path
                            @ [CHR 0x0A] @ ''--- a/'' @ old_path
                            @ [CHR 0x0A] @ ''+++ b/'' @ new_path
                            @ [CHR 0x0A] @ p))"

definition diff_file :: "FileData \<Rightarrow> DiffFile" where
  "diff_file file_data =
     (let st = classify_status (file_status file_data)
      in \<lparr>filename = get_default (file_filename file_data) [],
          diff_status = st,
          additions = get_default (file_additions file_data) 0,
          deletions = get_default (file_deletions file_data) 0,
          changes = get_default (file_changes file_data) 0,
          patch = normalize_patch file_data st,
          blobUrl = file_blob_url file_data,
          previousFilename = file_previous_filename file_data\<rparr>)"

text \<open>
  The loop over \<open>compare_data["files"]\<close>, with its three accumulators \<open>files\<close>,
  \<open>total_additions\<close> and \<open>total_deletions\<close>.
\<close>

fun files_loop ::
  "FileData list \<Rightarrow> DiffFile list \<times> int \<times> int \<Rightarrow> DiffFile list \<times> int \<times> int" where
  "files_loop [] acc = acc"
| "files_loop (file_data # rest) (file_list, total_additions, total_deletions) =
     files_loop rest
       (file_list @ [diff_file file_data],
        total_additions + get_default (file_additions file_data) 0,
        total_deletions + get_default (file_deletions file_data) 0)"

text \<open>
  The loop over \<open>compare_data["commits"]\<close>. \<open>fromisoformat\<close> is
  \<open>datetime.fromisoformat\<close>, \<open>None\<close> where it raises \<open>ValueError\<close>; the exception is not
  caught, so the request ends with 500.
\<close>

fun commits_loop ::
  "(string \<Rightarrow> datetime option) \<Rightarrow> CommitData list \<Rightarrow> DiffCommit list option" where
  "commits_loop fromisoformat [] = Some []"
| "commits_loop fromisoformat (commit_data # rest) =
     (case fromisoformat
             (py_replace ''Z'' ''+00:00'' (get_default (commit_author_date commit_data) [])) of
        None \<Rightarrow> None
      | Some parsed \<Rightarrow>
          (case commits_loop fromisoformat rest of
             None \<Rightarrow> None
           | Some parsed_rest \<Rightarrow>
               Some (\<lparr>sha = take 7 (get_default (commit_sha commit_data) []),
                      message = first_line (get_default (commit_message commit_data) []),
                      author = get_default (commit_author_name commit_data) ''Unknown'',
                      date = parsed\<rparr> # parsed_rest)))"

text \<open>
  \<open>diff_response\<close> is the second half of \<open>get_repo_diff\<close>, from the comment
  "Parse GitHub API response" on. A \<open>baseSha\<close> of \<open>None\<close> fails the validation of the
  response model, which also ends the request with 500.
\<close>

definition diff_response ::
  "(string \<Rightarrow> datetime option) \<Rightarrow> string \<Rightarrow> CompareData \<Rightarrow> HTTPException + DiffResponse" where
  "diff_response fromisoformat head_branch compare_data =
     (let base = get_default (base_commit compare_data) [];
          head = (case merge_base_commit compare_data of
                    None \<Rightarrow> get_default (head_commit compare_data) []
                  | Some m \<Rightarrow> if m = [] then get_default (head_commit compare_data) [] else m);
          base_sha_from_api = map_of base ''sha'';
          head_sha_from_api = or_else (map_of head ''sha'') head_branch;
          (file_list, total_additions, total_deletions) =
             files_loop (get_default (compare_files compare_data) []) ([], 0, 0)
      in case commits_loop fromisoformat (get_default (compare_commits compare_data) []) of
           None \<Rightarrow> Inl internal_server_error
         | Some commit_list \<Rightarrow>
             (case base_sha_from_api of
                None \<Rightarrow> Inl internal_server_error
              | Some base_sha \<Rightarrow>
                  Inr \<lparr>files = file_list,
                       totalAdditions = total_additions,
                       totalDeletions = total_deletions,
                       totalChanges = get_default (total_commits compare_data) 0,
                       commits = commit_list,
                       baseSha = base_sha,
                       headSha = head_sha_from_api,
                       htmlUrl = compare_html_url compare_data\<rparr>))"

text \<open>
  The GitHub API as the endpoint calls it: the outcome of the GET of each path. The
  repository endpoint answers with the default branch, the commits endpoint with the commits'
  SHAs (newest first), the compare endpoint with a compare result.
\<close>

record Upstream =
  get_repository :: "string \<Rightarrow> exn + string option Response"
  get_commits :: "string \<Rightarrow> exn + string option list Response"
  get_compare :: "string \<Rightarrow> exn + CompareData Response"

datatype raised = RaisedHTTP HTTPException | Raised exn

definition mentions_not_found :: "string \<Rightarrow> bool" where
  "mentions_not_found msg = (py_in ''404'' msg \<or> py_in ''Not Found'' msg)"

text \<open>The handlers of the inner \<open>try\<close> around the compare requests.\<close>

definition compare_handlers :: "exn \<Rightarrow> raised" where
  "compare_handlers exc =
     (let msg = (case exc of GitHubAppError m \<Rightarrow> m | OtherException m \<Rightarrow> m)
      in if mentions_not_found msg
         then RaisedHTTP (HTTPException 404 (''Could not compare repository: '' @ msg))
         else Raised exc)"

definition compare_with_fallback ::
  "Upstream \<Rightarrow> string \<Rightarrow> string \<Rightarrow> string \<Rightarrow> raised + CompareData" where
  "compare_with_fallback upstream repo_name first_sha head_branch =
     (let compare_url = ''/repos/'' @ repo_name @ ''/compare/'' @ first_sha @ ''...''
                          @ head_branch
      in case request (get_compare upstream compare_url) compare_url [200, 404] of
           Inl exc \<Rightarrow> Inl (compare_handlers exc)
         | Inr response \<Rightarrow>
             if status_code response = 404 then
               (let swapped_url = ''/repos/'' @ repo_name @ ''/compare/'' @ head_branch
                                    @ ''...'' @ first_sha
                in case request (get_compare upstream swapped_url) swapped_url [200, 404] of
                     Inl exc \<Rightarrow> Inl (compare_handlers exc)
                   | Inr swapped_response \<Rightarrow>
                       if status_code swapped_response = 404 then
                         Inl (RaisedHTTP (HTTPException 404
                           (''Could not compare repository: branch '' @ head_branch
                            @ '' or commit '' @ first_sha @ '' not found'')))
                       else Inr (json swapped_response))
             else Inr (json response))"

text \<open>The body of the outer \<open>try\<close>.\<close>

definition fetch_compare_data ::
  "exn + string \<Rightarrow> Upstream \<Rightarrow> string \<Rightarrow> string \<Rightarrow> raised + CompareData" where
  "fetch_compare_data token upstream repo_name head_branch =
     (case token of
        Inl exc \<Rightarrow> Inl (Raised exc)
      | Inr installation_token \<Rightarrow>
     (let repo_url = ''/repos/'' @ repo_name
      in case request (get_repository upstream repo_url) repo_url [200] of
        Inl exc \<Rightarrow> Inl (Raised exc)
      | Inr repo_response \<Rightarrow>
     (let commits_url = ''/repos/'' @ repo_name @ ''/commits?sha='' @ head_branch
                          @ ''&per_page=100''
      in case request (get_commits upstream commits_url) commits_url [200] of
        Inl exc \<Rightarrow> Inl (Raised exc)
      | Inr commits_response \<Rightarrow>
     if json commits_response = [] then
       Inl (RaisedHTTP (HTTPException 404 ''Repository has no commits to compare''))
     else
     (case last (json commits_response) of
        None \<Rightarrow> Inl (RaisedHTTP (HTTPException 404 ''Could not determine first commit SHA''))
      | Some first_sha \<Rightarrow>
     if first_sha = [] then
       Inl (RaisedHTTP (HTTPException 404 ''Could not determine first commit SHA''))
     else compare_with_fallback upstream repo_name first_sha head_branch))))"

text \<open>
  The handlers of the outer \<open>try\<close>. An exception that is not a \<open>GitHubAppError\<close> is a
  transport error and has no \<open>response\<close> attribute, so only its message is inspected.
\<close>

definition diff_handlers :: "string \<Rightarrow> raised \<Rightarrow> HTTPException" where
  "diff_handlers repo_name r =
     (case r of
        RaisedHTTP e \<Rightarrow> e
      | Raised (GitHubAppError msg) \<Rightarrow>
          if mentions_not_found msg
          then HTTPException 404 (''Repository or branch not found: '' @ repo_name)
          else HTTPException 502 (''GitHub API error: '' @ msg)
      | Raised (OtherException msg) \<Rightarrow>
          if mentions_not_found msg
          then HTTPException 404 (''Repository or branch not found: '' @ repo_name)
          else if py_in ''500'' msg
          then HTTPException 503
                 ''GitHub API temporarily unavailable. Please try again later.''
          else HTTPException 502 (''GitHub API error: '' @ msg))"

text \<open>
  \<open>get_repo_diff\<close>, from the comment "Fetch diff from GitHub API" on: the candidate repository
  has been loaded, the caller authorised and the installation client built. \<open>token\<close> is the
  outcome of \<open>_get_cached_installation_token\<close>.
\<close>

definition get_repo_diff ::
  "(string \<Rightarrow> datetime option) \<Rightarrow> exn + string \<Rightarrow> Upstream \<Rightarrow> string \<Rightarrow> string
     \<Rightarrow> HTTPException + DiffResponse" where
  "get_repo_diff fromisoformat token upstream repo_name head_branch =
     (case fetch_compare_data token upstream repo_name head_branch of
        Inl r \<Rightarrow> Inl (diff_handlers repo_name r)
      | Inr compare_data \<Rightarrow> diff_response fromisoformat head_branch compare_data)"

section \<open>The mirror clone and push (backend/app/github_app.py)\<close>

text \<open>
  A finished \<open>git\<close> process, with its output decoded. The commands of one mirror operation
  differ in their arguments, so \<open>git\<close> is given as the function from the arguments to the
  finished process.
\<close>

record GitProcess =
  returncode :: int
  stdout :: string
  stderr :: string

text \<open>\<open>sep.join(parts)\<close>.\<close>

fun py_join :: "string \<Rightarrow> string list \<Rightarrow> string" where
  "py_join sep [] = []"
| "py_join sep [part] = part"
| "py_join sep (part # rest) = part @ sep @ py_join sep rest"

definition run_git :: "(string list \<Rightarrow> GitProcess) \<Rightarrow> string list \<Rightarrow> exn + string" where
  "run_git git args =
     (let sanitized_args = map (\<lambda>arg. if py_in ''x-access-token:'' arg then ''***'' else arg) args;
          process = git args
      in if returncode process \<noteq> 0 then
           Inl (GitHubAppError
                  (''Git command failed ('' @ py_join '' '' sanitized_args @ ''): ''
                   @ py_strip (stderr process)))
         else Inr (py_strip (stdout process)))"

text \<open>
  \<open>resolve_branch\<close> is the part of \<open>_clone_and_push\<close> that determines \<open>branch_sha\<close> and
  the possibly corrected \<open>source_branch\<close>: \<open>git rev-parse\<close> of the branch ref first and,
  when that fails, the first line of \<open>git show-ref --heads\<close>.
\<close>

definition resolve_branch ::
  "(string list \<Rightarrow> GitProcess) \<Rightarrow> string \<Rightarrow> string option \<times> string" where
  "resolve_branch git source_branch =
     (case run_git git [''rev-parse'', ''refs/heads/'' @ source_branch] of
        Inr rev_parse_output \<Rightarrow>
          (if py_strip rev_parse_output = [] then None else Some (py_strip rev_parse_output),
           source_branch)
      | Inl rev_parse_error \<Rightarrow>
          (case run_git git [''show-ref'', ''--heads''] of
             Inl show_ref_error \<Rightarrow> (None, source_branch)
           | Inr show_ref_output \<Rightarrow>
               if py_strip show_ref_output \<noteq> [] then
                 (let first_ref = first_line (py_strip show_ref_output)
                  in if first_ref \<noteq> [] then
                       (let parts = py_split first_ref
                        in if length parts \<ge> 2
                           then (Some (parts ! 0),
                                 py_replace ''refs/heads/'' [] (parts ! 1))
                           else (None, source_branch))
                     else (None, source_branch))
               else (None, source_branch)))"

definition branch_not_found :: "string \<Rightarrow> exn" where
  "branch_not_found source_branch =
     GitHubAppError
       (''Source repository branch '' @ [CHR 0x27] @ source_branch @ [CHR 0x27]
        @ '' not found. The repository may be empty or the branch doesn''
        @ [CHR 0x27] @ ''t exist.'')"

text \<open>
  \<open>clone_and_push\<close> is \<open>GitHubAppClient._clone_and_push\<close>; \<open>temp_dir\<close> is the directory
  that \<open>tempfile.mkdtemp\<close> returned. Removing it in the \<open>finally\<close> clause does not change
  the result.
\<close>

definition clone_and_push ::
  "(string list \<Rightarrow> GitProcess) \<Rightarrow> string \<Rightarrow> string \<Rightarrow> string \<Rightarrow> string \<Rightarrow> string
     \<Rightarrow> exn + (string \<times> string)" where
  "clone_and_push git temp_dir source_url source_branch destination_url destination_branch =
     (let repo_dir = temp_dir @ ''/repo.git''
      in case run_git git [''clone'', ''--mirror'', source_url, repo_dir] of
           Inl e \<Rightarrow> Inl e
         | Inr cloned \<Rightarrow>
             (case resolve_branch git source_branch of
                (None, actual_branch) \<Rightarrow> Inl (branch_not_found actual_branch)
              | (Some branch_sha, actual_branch) \<Rightarrow>
                  (case run_git git [''remote'', ''set-url'', ''--push'', ''origin'',
                                     destination_url] of
                     Inl e \<Rightarrow> Inl e
                   | Inr repointed \<Rightarrow>
                       (case run_git git [''push'', ''--mirror'', ''origin''] of
                          Inl e \<Rightarrow> Inl e
                        | Inr pushed \<Rightarrow> Inr (branch_sha, actual_branch)))))"

section \<open>A concrete database\<close>

text \<open>
  One organisation with a connected installation, one assessment with a pinned seed, and one
  invitation whose start link is \<open>tok\<close>; the hash function brackets its argument. The
  concrete evaluations below run the handlers on this database.
\<close>

definition example_seed :: Seed where
  "example_seed =
     \<lparr>seed_org_id = 1, seed_repo_full_name = ''acme/seed'', default_branch = ''main'',
      latest_main_sha = Some ''aaa''\<rparr>"

definition example_assessment :: Assessment where
  "example_assessment =
     \<lparr>assessment_org_id = 1, time_to_complete = 3600, seed = Some example_seed\<rparr>"

definition example_token :: AccessToken where
  "example_token =
     \<lparr>token_repo_full_name = ''acme/cand'', opaque_token_hash = ''h0'', expires_at = 500,
      revoked = False\<rparr>"

definition example_repo :: CandidateRepo where
  "example_repo =
     \<lparr>seed_sha_pinned = ''aaa'', repo_full_name = ''acme/cand'', repo_html_url = None,
      github_repo_id = Some 7, active = True, archived = False\<rparr>"

definition example_invitation :: Invitation where
  "example_invitation =
     \<lparr>invitation_id = ''0123456789abcdef'', status = Sent, start_deadline = Some 100,
      complete_deadline = None, start_link_token_hash = ''H(tok)'', started_at = None,
      submitted_at = None, expired_at = None, assessment = Some example_assessment,
      candidate_repo = None, access_tokens = [], submissions = []\<rparr>"

definition started_invitation :: Invitation where
  "started_invitation =
     example_invitation\<lparr>status := Started, started_at := Some 50,
       complete_deadline := Some 3650, candidate_repo := Some example_repo,
       access_tokens := [example_token]\<rparr>"

definition submitted_invitation :: Invitation where
  "submitted_invitation =
     started_invitation\<lparr>status := Submitted, submitted_at := Some 60,
       access_tokens := [example_token\<lparr>revoked := True\<rparr>]\<rparr>"

definition example_db :: "Invitation \<Rightarrow> Database" where
  "example_db invitation =
     \<lparr>invitations = [invitation],
      github_installations = [(1, \<lparr>installation_id = 42, account_login = ''acme''\<rparr>)]\<rparr>"

definition example_hash :: "string \<Rightarrow> string" where
  "example_hash token = ''H('' @ token @ '')''"

definition example_github :: GitHub where
  "example_github =
     \<lparr>refresh_branch_sha = (\<lambda>repo branch. Inr ''bbb''),
      create_candidate_repository =
        (\<lambda>repo branch slug. Inr \<lparr>github_id = 7, full_name = ''acme/cand'', html_url = None\<rparr>),
      create_repository_access_token = (\<lambda>repo_id. Inr (''secret'', 900)),
      archive_repository = (\<lambda>repo. Inr ())\<rparr>"

definition failing_github :: GitHub where
  "failing_github =
     example_github\<lparr>refresh_branch_sha :=
       (\<lambda>repo branch. Inl (GitHubAppError ''Unable to determine seed main branch SHA''))\<rparr>"

definition no_membership_error :: "nat \<Rightarrow> HTTPException option" where
  "no_membership_error org = None"

definition UUID_of_example :: "string \<Rightarrow> uuid option" where
  "UUID_of_example text = (if length text = 16 then Some text else None)"

definition revoked_invitation :: Invitation where
  "revoked_invitation = example_invitation\<lparr>status := Revoked, expired_at := Some 70\<rparr>"

definition expired_invitation :: Invitation where
  "expired_invitation = example_invitation\<lparr>status := Expired, expired_at := Some 120\<rparr>"

definition empty_payload :: SubmitRequest where
  "empty_payload =
     \<lparr>request_final_sha = None, request_repo_html_url = None, request_video_url = None\<rparr>"

text \<open>
  A GitHub API for the repository \<open>acme/cand\<close>, whose branch \<open>main\<close> has two commits, the
  oldest being \<open>abc1234\<close>. \<open>example_upstream\<close> answers the compare of \<open>abc1234...main\<close>;
  \<open>swapped_only_upstream\<close> answers 404 there and 200 for \<open>main...abc1234\<close>.
\<close>

definition example_compare_data :: CompareData where
  "example_compare_data =
     \<lparr>base_commit = Some [(''sha'', ''abc1234'')],
      merge_base_commit = Some [(''sha'', ''abc1234'')],
      head_commit = None,
      compare_files = Some
        [\<lparr>file_status = Some ''added'', file_additions = Some 3, file_deletions = Some 1,
          file_changes = Some 4, file_patch = None, file_filename = Some ''a.py'',
          file_previous_filename = None, file_blob_url = None\<rparr>,
         \<lparr>file_status = Some ''modified'', file_additions = Some 5, file_deletions = Some 2,
          file_changes = Some 7, file_patch = None, file_filename = Some ''b.py'',
          file_previous_filename = None, file_blob_url = None\<rparr>],
      compare_commits = Some
        [\<lparr>commit_sha = Some ''def5678def5678'', commit_message = Some ''work'',
          commit_author_name = Some ''Ada'', commit_author_date = Some ''2024-01-01T00:00:00Z''\<rparr>],
      total_commits = Some 1,
      compare_html_url = None\<rparr>"

definition example_fromisoformat :: "string \<Rightarrow> datetime option" where
  "example_fromisoformat text =
     (if text = ''2024-01-01T00:00:00+00:00'' then Some 1704067200 else None)"

definition not_found_response :: "CompareData Response" where
  "not_found_response =
     \<lparr>status_code = 404, response_text = ''Not Found'',
      json = \<lparr>base_commit = None, merge_base_commit = None, head_commit = None,
              compare_files = None, compare_commits = None, total_commits = None,
              compare_html_url = None\<rparr>\<rparr>"

definition example_upstream :: Upstream where
  "example_upstream =
     \<lparr>get_repository =
        (\<lambda>path. Inr \<lparr>status_code = 200, response_text = [], json = Some ''main''\<rparr>),
      get_commits =
        (\<lambda>path. Inr \<lparr>status_code = 200, response_text = [],
                       json = [Some ''def5678def5678'', Some ''abc1234'']\<rparr>),
      get_compare =
        (\<lambda>path. if path = ''/repos/acme/cand/compare/abc1234...main''
                then Inr \<lparr>status_code = 200, response_text = [], json = example_compare_data\<rparr>
                else Inr not_found_response)\<rparr>"

definition swapped_only_upstream :: Upstream where
  "swapped_only_upstream =
     example_upstream\<lparr>get_compare :=
       (\<lambda>path. if path = ''/repos/acme/cand/compare/main...abc1234''
               then Inr \<lparr>status_code = 200, response_text = [], json = example_compare_data\<rparr>
               else Inr not_found_response)\<rparr>"

text \<open>
  A \<open>git\<close> for a source repository without the requested branch: \<open>rev-parse\<close> fails,
  \<open>show-ref --heads\<close> prints the given lines, every other command succeeds.
\<close>

definition git_with_heads :: "string \<Rightarrow> string list \<Rightarrow> GitProcess" where
  "git_with_heads show_ref_lines args =
     (if take 1 args = [''rev-parse''] then
        \<lparr>returncode = 128, stdout = [], stderr = ''fatal: ambiguous argument''\<rparr>
      else if take 1 args = [''show-ref''] then
        (if show_ref_lines = [] then \<lparr>returncode = 1, stdout = [], stderr = []\<rparr>
         else \<lparr>returncode = 0, stdout = show_ref_lines, stderr = []\<rparr>)
      else \<lparr>returncode = 0, stdout = [], stderr = []\<rparr>)"

section \<open>Properties of the session\<close>

lemmas example_defs =
  example_seed_def example_assessment_def example_token_def example_repo_def
  example_invitation_def started_invitation_def submitted_invitation_def example_db_def
  example_hash_def example_github_def failing_github_def no_membership_error_def
  UUID_of_example_def revoked_invitation_def expired_invitation_def empty_payload_def

lemma find_commit:
  "find P xs = Some x \<Longrightarrow> P x' \<Longrightarrow>
   find P (map (\<lambda>r. if f r = f x then x' else r) xs) = Some x'"
  by (induction xs) (auto split: if_splits)

lemma get_invitation_by_token_commit:
  assumes "get_invitation_by_token hash_token db token = Inr invitation"
    and "invitation_id changed = invitation_id invitation"
    and "start_link_token_hash changed = start_link_token_hash invitation"
  shows "get_invitation_by_token hash_token (commit db changed) token = Inr changed"
proof -
  let ?P = "\<lambda>r. start_link_token_hash r = hash_token token"
  from assms(1) have found: "find ?P (invitations db) = Some invitation"
    by (simp add: get_invitation_by_token_def split: option.splits)
  then have "?P invitation"
    by (auto simp: find_Some_iff)
  with assms(3) have "?P changed" by simp
  from find_commit [OF found this, of invitation_id]
  show ?thesis
    by (simp add: get_invitation_by_token_def commit_def assms(2))
qed

lemma load_invitation_id:
  "load_invitation db u = Inr invitation \<Longrightarrow> invitation_id invitation = u"
  by (auto simp: load_invitation_def find_Some_iff split: option.splits)

lemma load_invitation_commit:
  assumes "load_invitation db u = Inr invitation"
    and "invitation_id changed = invitation_id invitation"
  shows "load_invitation (commit db changed) u = Inr changed"
proof -
  let ?P = "\<lambda>r. invitation_id r = u"
  from assms(1) have found: "find ?P (invitations db) = Some invitation"
    by (simp add: load_invitation_def split: option.splits)
  then have "?P invitation"
    by (auto simp: find_Some_iff)
  with assms(2) have "?P changed" by simp
  from find_commit [OF found this, of invitation_id]
  show ?thesis
    by (simp add: load_invitation_def commit_def assms(2))
qed

lemma revoke_tokens_all: "revoke_tokens tokens = map (\<lambda>t. t\<lparr>revoked := True\<rparr>) tokens"
  by (simp add: revoke_tokens_def)

lemma no_live_token_after_revoke:
  "filter (\<lambda>t. \<not> revoked t) (map (\<lambda>t. t\<lparr>revoked := True\<rparr>) tokens) = []"
  by (induction tokens) simp_all

section \<open>The start transition\<close>

text \<open>
  A start request that ends in an error other than 410 has written nothing: every such exit of
  \<open>start_assessment\<close> comes before its commit.
\<close>

lemma start_assessment_error_no_write:
  assumes "start_assessment hash_token github now db token
             = (Inl (HTTPException code detail), db')"
    and "code \<noteq> 410"
  shows "db' = db"
  using assms
  by (auto simp: start_assessment_def Let_def
      split: sum.splits option.splits if_splits exn.splits prod.splits)

text \<open>
  Claim C1. When candidate-repository provisioning fails during a start request (the refresh of
  the seed branch SHA raises a GitHub error, or the template-generate call does), the request is
  aborted with 502 and the persisted state is the one before the request: the invitation is
  still \<open>sent\<close> and nothing of the attempted transition is stored.
\<close>

theorem start_provisioning_failure_keeps_sent:
  assumes "get_invitation_by_token hash_token db token = Inr invitation"
    and "status invitation = Sent"
    and "\<not> deadline_passed (start_deadline invitation) now"
    and "assessment invitation = Some assessment_model"
    and "seed assessment_model = Some seed_model"
    and "latest_main_sha seed_model = Some pinned" and "pinned \<noteq> []"
    and "require_github_installation_client db (seed_org_id seed_model) = Inr installation"
    and "branch = (if default_branch seed_model = [] then ''main''
                   else default_branch seed_model)"
    and "refresh_branch_sha github (seed_repo_full_name seed_model) branch
           = Inl (GitHubAppError msg)
         \<or> (refresh_branch_sha github (seed_repo_full_name seed_model) branch = Inr fresh_sha
            \<and> candidate_repo invitation = None
            \<and> create_candidate_repository github (seed_repo_full_name seed_model) branch
                 (take 10 (invitation_id invitation)) = Inl (GitHubAppError msg))"
  shows "start_assessment hash_token github now db token = (Inl (HTTPException 502 msg), db)
       \<and> get_invitation_by_token hash_token
            (snd (start_assessment hash_token github now db token)) token = Inr invitation
       \<and> status invitation = Sent"
proof -
  have "start_assessment hash_token github now db token = (Inl (HTTPException 502 msg), db)"
    using assms
    by (auto simp: start_assessment_def provision_candidate_repo_def Let_def)
  then show ?thesis
    using assms(1,2) by simp
qed

theorem start_provisioning_failure_keeps_sent_witness:
  "start_assessment example_hash failing_github 50 (example_db example_invitation) ''tok''
     = (Inl (HTTPException 502 ''Unable to determine seed main branch SHA''),
        example_db example_invitation)
   \<and> get_invitation_by_token example_hash
        (snd (start_assessment example_hash failing_github 50
               (example_db example_invitation) ''tok'')) ''tok''
     = Inr example_invitation
   \<and> status example_invitation = Sent"
  by (rule start_provisioning_failure_keeps_sent
        [where assessment_model = example_assessment and seed_model = example_seed
           and pinned = "''aaa''" and branch = "''main''" and fresh_sha = "''bbb''"
           and installation = "\<lparr>installation_id = 42, account_login = ''acme''\<rparr>"])
     (simp_all add: example_defs get_invitation_by_token_def deadline_passed_def
        require_github_installation_client_def)

text \<open>
  Claim C5. A start request for an invitation in \<open>sent\<close> that arrives after the start
  deadline is rejected with 410 Gone, and the invitation is persisted as \<open>expired\<close> with
  \<open>expired_at\<close> set to the time of the request; it is not started.
\<close>

theorem start_after_deadline_expires:
  assumes "get_invitation_by_token hash_token db token = Inr invitation"
    and "status invitation = Sent"
    and "start_deadline invitation = Some d"
    and "d < now"
  shows "fst (start_assessment hash_token github now db token)
           = Inl (HTTPException 410 ''Invitation start window has expired'')
       \<and> get_invitation_by_token hash_token
            (snd (start_assessment hash_token github now db token)) token
           = Inr (invitation\<lparr>status := Expired, expired_at := Some now\<rparr>)"
  using assms get_invitation_by_token_commit [OF assms(1),
      of "invitation\<lparr>status := Expired, expired_at := Some now\<rparr>"]
  by (simp add: start_assessment_def deadline_passed_def)

theorem start_after_deadline_expires_witness:
  "get_invitation_by_token example_hash (example_db example_invitation) ''tok''
     = Inr example_invitation
   \<and> status example_invitation = Sent
   \<and> start_deadline example_invitation = Some 100
   \<and> fst (start_assessment example_hash example_github 101
            (example_db example_invitation) ''tok'')
       = Inl (HTTPException 410 ''Invitation start window has expired'')
   \<and> get_invitation_by_token example_hash
        (snd (start_assessment example_hash example_github 101
               (example_db example_invitation) ''tok'')) ''tok''
       = Inr (example_invitation\<lparr>status := Expired, expired_at := Some 101\<rparr>)"
proof -
  have found: "get_invitation_by_token example_hash (example_db example_invitation) ''tok''
                 = Inr example_invitation"
    by (simp add: example_defs get_invitation_by_token_def)
  have sent: "status example_invitation = Sent"
    and deadline: "start_deadline example_invitation = Some 100"
    by (simp_all add: example_defs)
  from start_after_deadline_expires [OF found sent deadline, of 101 example_github]
    found sent deadline
  show ?thesis by simp
qed

text \<open>
  Claim C6. A successful start commits, in one write, the new access token together with the
  revocation of every access token the invitation had before: afterwards the invitation's
  tokens are the old ones, all revoked, followed by the new one, which is the only token that
  is not revoked.
\<close>

theorem start_revokes_prior_tokens:
  assumes "get_invitation_by_token hash_token db token = Inr invitation"
    and "start_assessment hash_token github now db token = (Inr response, db')"
  shows "\<exists>committed new_token.
           get_invitation_by_token hash_token db' token = Inr committed
         \<and> access_tokens committed
             = map (\<lambda>t. t\<lparr>revoked := True\<rparr>) (access_tokens invitation) @ [new_token]
         \<and> \<not> revoked new_token
         \<and> filter (\<lambda>t. \<not> revoked t) (access_tokens committed) = [new_token]"
  using assms(2) unfolding start_assessment_def Let_def assms(1)
  by (auto simp: get_invitation_by_token_commit [OF assms(1)] revoke_tokens_all
        no_live_token_after_revoke
      split: sum.splits option.splits if_splits exn.splits prod.splits)

theorem start_revokes_prior_tokens_witness:
  "\<exists>response db'.
     start_assessment example_hash example_github 50
       (example_db (example_invitation\<lparr>access_tokens := [example_token]\<rparr>)) ''tok''
       = (Inr response, db')
   \<and> (\<exists>committed new_token.
           get_invitation_by_token example_hash db' ''tok'' = Inr committed
         \<and> access_tokens committed = [example_token\<lparr>revoked := True\<rparr>, new_token]
         \<and> \<not> revoked new_token
         \<and> filter (\<lambda>t. \<not> revoked t) (access_tokens committed) = [new_token])"
proof -
  let ?inv = "example_invitation\<lparr>access_tokens := [example_token]\<rparr>"
  have found: "get_invitation_by_token example_hash (example_db ?inv) ''tok'' = Inr ?inv"
    by (simp add: example_defs get_invitation_by_token_def)
  obtain response db' where
    run: "start_assessment example_hash example_github 50 (example_db ?inv) ''tok''
            = (Inr response, db')"
    by (simp add: example_defs start_assessment_def get_invitation_by_token_def
          deadline_passed_def require_github_installation_client_def
          provision_candidate_repo_def revoke_tokens_def Let_def)
  from start_revokes_prior_tokens [OF found run] run
  show ?thesis by auto
qed

section \<open>Admin revoke and mark-submitted\<close>

lemma revoke_invitation_of_revoked:
  assumes "UUID p = Some u" and "load_invitation db u = Inr invitation"
    and "status invitation = Revoked"
  shows "snd (revoke_invitation UUID membership now db p) = db"
  using assms
  by (simp add: revoke_invitation_def split: option.splits)

lemma revoke_invitation_answer_of_revoked:
  assumes "UUID p = Some u" and "load_invitation db u = Inr invitation"
    and "status invitation = Revoked"
    and "assessment invitation = Some assessment_model"
    and "membership (assessment_org_id assessment_model) = None"
  shows "revoke_invitation UUID membership now db p = (Inr (admin_invitation invitation), db)"
  using assms
  by (simp add: revoke_invitation_def)

text \<open>
  Claim C9. Admin revoke is idempotent on the persisted state: a second revoke, at any later
  time, leaves the state that the first one produced. When the first revoke went through, the
  second one finds the invitation \<open>revoked\<close>, answers with it and writes nothing, so
  \<open>expired_at\<close> keeps the value the first call stored.
\<close>

theorem revoke_invitation_idempotent:
  "snd (revoke_invitation UUID membership now2
          (snd (revoke_invitation UUID membership now1 db p)) p)
     = snd (revoke_invitation UUID membership now1 db p)
   \<and> (UUID p = Some u \<and> load_invitation db u = Inr invitation
         \<and> fst (revoke_invitation UUID membership now1 db p) = Inr answer
       \<longrightarrow> (\<exists>revoked_invitation.
             load_invitation (snd (revoke_invitation UUID membership now1 db p)) u
               = Inr revoked_invitation
           \<and> status revoked_invitation = Revoked
           \<and> expired_at revoked_invitation
               = (if status invitation = Revoked then expired_at invitation
                  else or_now (expired_at invitation) now1)
           \<and> revoke_invitation UUID membership now2
                (snd (revoke_invitation UUID membership now1 db p)) p
               = (Inr (admin_invitation revoked_invitation),
                  snd (revoke_invitation UUID membership now1 db p))))"
proof (intro conjI impI)
  show "snd (revoke_invitation UUID membership now2
          (snd (revoke_invitation UUID membership now1 db p)) p)
     = snd (revoke_invitation UUID membership now1 db p)"
  proof (cases "UUID p")
    case None
    then show ?thesis by (simp add: revoke_invitation_def)
  next
    case (Some u)
    show ?thesis
    proof (cases "load_invitation db u")
      case (Inl e)
      with Some show ?thesis by (simp add: revoke_invitation_def)
    next
      case (Inr invitation)
      show ?thesis
      proof (cases "assessment invitation")
        case None
        with Some Inr show ?thesis by (simp add: revoke_invitation_def)
      next
        case assessed: (Some assessment_model)
        show ?thesis
        proof (cases "membership (assessment_org_id assessment_model)")
          case (Some e)
          with \<open>UUID p = Some u\<close> Inr assessed show ?thesis
            by (simp add: revoke_invitation_def)
        next
          case None
          show ?thesis
          proof (cases "status invitation = Revoked")
            case True
            with \<open>UUID p = Some u\<close> Inr assessed None show ?thesis
              by (simp add: revoke_invitation_def)
          next
            case False
            let ?changed = "invitation\<lparr>status := Revoked,
                               expired_at := or_now (expired_at invitation) now1\<rparr>"
            have first: "snd (revoke_invitation UUID membership now1 db p) = commit db ?changed"
              using \<open>UUID p = Some u\<close> Inr assessed None False
              by (simp add: revoke_invitation_def Let_def)
            have loaded: "load_invitation (commit db ?changed) u = Inr ?changed"
              by (rule load_invitation_commit [OF Inr]) simp
            have "snd (revoke_invitation UUID membership now2 (commit db ?changed) p)
                    = commit db ?changed"
              using revoke_invitation_of_revoked
                      [where UUID = UUID and p = p and u = u and db = "commit db ?changed"
                         and invitation = ?changed and membership = membership and now = now2]
                    \<open>UUID p = Some u\<close> loaded
              by simp
            then show ?thesis by (simp add: first)
          qed
        qed
      qed
    qed
  qed
next
  assume h: "UUID p = Some u \<and> load_invitation db u = Inr invitation
         \<and> fst (revoke_invitation UUID membership now1 db p) = Inr answer"
  then obtain assessment_model where
    assessed: "assessment invitation = Some assessment_model"
    and member: "membership (assessment_org_id assessment_model) = None"
    by (auto simp: revoke_invitation_def split: option.splits)
  let ?db1 = "snd (revoke_invitation UUID membership now1 db p)"
  show "\<exists>revoked_invitation.
             load_invitation ?db1 u = Inr revoked_invitation
           \<and> status revoked_invitation = Revoked
           \<and> expired_at revoked_invitation
               = (if status invitation = Revoked then expired_at invitation
                  else or_now (expired_at invitation) now1)
           \<and> revoke_invitation UUID membership now2 ?db1 p
               = (Inr (admin_invitation revoked_invitation), ?db1)"
  proof (cases "status invitation = Revoked")
    case True
    have first: "?db1 = db"
      using h assessed member True by (simp add: revoke_invitation_def)
    have "revoke_invitation UUID membership now2 db p = (Inr (admin_invitation invitation), db)"
      using revoke_invitation_answer_of_revoked
              [where UUID = UUID and p = p and u = u and db = db and invitation = invitation
                 and membership = membership and now = now2] h True assessed member
      by simp
    with h True show ?thesis
      by (simp add: first)
  next
    case False
    let ?changed = "invitation\<lparr>status := Revoked,
                       expired_at := or_now (expired_at invitation) now1\<rparr>"
    have first: "?db1 = commit db ?changed"
      using h assessed member False by (simp add: revoke_invitation_def Let_def)
    have loaded: "load_invitation (commit db ?changed) u = Inr ?changed"
      using h by (intro load_invitation_commit [where invitation = invitation]) simp_all
    have "revoke_invitation UUID membership now2 (commit db ?changed) p
            = (Inr (admin_invitation ?changed), commit db ?changed)"
      using revoke_invitation_answer_of_revoked
              [where UUID = UUID and p = p and u = u and db = "commit db ?changed"
                 and invitation = ?changed and membership = membership and now = now2
                 and assessment_model = assessment_model] h loaded assessed member
      by simp
    with loaded False show ?thesis
      by (simp add: first)
  qed
qed

theorem revoke_invitation_idempotent_witness:
  "UUID_of_example ''0123456789abcdef'' = Some ''0123456789abcdef''
   \<and> load_invitation (example_db started_invitation) ''0123456789abcdef''
       = Inr started_invitation
   \<and> revoke_invitation UUID_of_example no_membership_error 70
        (example_db started_invitation) ''0123456789abcdef''
       = (Inr (admin_invitation
                 (started_invitation\<lparr>status := Revoked, expired_at := Some 70\<rparr>)),
          example_db (started_invitation\<lparr>status := Revoked, expired_at := Some 70\<rparr>))
   \<and> snd (revoke_invitation UUID_of_example no_membership_error 80
            (example_db (started_invitation\<lparr>status := Revoked, expired_at := Some 70\<rparr>))
            ''0123456789abcdef'')
       = example_db (started_invitation\<lparr>status := Revoked, expired_at := Some 70\<rparr>)
   \<and> (\<exists>revoked_invitation.
         load_invitation
           (example_db (started_invitation\<lparr>status := Revoked, expired_at := Some 70\<rparr>))
           ''0123456789abcdef'' = Inr revoked_invitation
       \<and> status revoked_invitation = Revoked
       \<and> expired_at revoked_invitation = Some 70
       \<and> revoke_invitation UUID_of_example no_membership_error 80
            (example_db (started_invitation\<lparr>status := Revoked, expired_at := Some 70\<rparr>))
            ''0123456789abcdef''
           = (Inr (admin_invitation revoked_invitation),
              example_db
                (started_invitation\<lparr>status := Revoked, expired_at := Some 70\<rparr>)))"
proof -
  let ?p = "''0123456789abcdef''"
  let ?revoked = "started_invitation\<lparr>status := Revoked, expired_at := Some 70\<rparr>"
  have parsed: "UUID_of_example ?p = Some ?p"
    by (simp add: UUID_of_example_def)
  have loaded: "load_invitation (example_db started_invitation) ?p = Inr started_invitation"
    by (simp add: example_defs load_invitation_def)
  have fields: "status started_invitation = Started" "expired_at started_invitation = None"
    "assessment started_invitation = Some example_assessment"
    "invitation_id started_invitation = ?p"
    by (simp_all add: example_defs)
  have committed: "commit (example_db started_invitation) ?revoked = example_db ?revoked"
    by (simp add: commit_def example_db_def fields)
  have first: "revoke_invitation UUID_of_example no_membership_error 70
                 (example_db started_invitation) ?p
     = (Inr (admin_invitation ?revoked), example_db ?revoked)"
    by (simp add: revoke_invitation_def parsed loaded fields no_membership_error_def
          or_now_def committed Let_def)
  from revoke_invitation_idempotent
         [of UUID_of_example no_membership_error 80 70 "example_db started_invitation" ?p
             ?p started_invitation "admin_invitation ?revoked"]
  show ?thesis
    by (simp add: parsed loaded first fields or_now_def)
qed

section \<open>Submission and the terminal states\<close>

text \<open>
  The candidate's own submit keeps the invariant of claim C2: when it succeeds, the invitation
  is persisted as \<open>submitted\<close> with \<open>submitted_at\<close> set and with every access token revoked.
\<close>

lemma submit_assessment_revokes_tokens:
  assumes "get_invitation_by_token hash_token db token = Inr invitation"
    and "submit_assessment hash_token github now db token payload = (Inr answer, db')"
  shows "\<exists>committed.
           get_invitation_by_token hash_token db' token = Inr committed
         \<and> status committed = Submitted
         \<and> submitted_at committed = Some now
         \<and> list_all revoked (access_tokens committed)"
  using assms(2) unfolding submit_assessment_def Let_def assms(1)
  by (auto simp: get_invitation_by_token_commit [OF assms(1)] revoke_tokens_all
        list_all_iff
      split: sum.splits option.splits if_splits exn.splits)

text \<open>
  Claim C2. Every invitation in \<open>submitted\<close> should have \<open>submitted_at\<close> set and all its
  access tokens revoked. The admin endpoint \<open>mark_invitation_submitted\<close> does not revoke
  tokens: on a started invitation that holds a live token it stores \<open>submitted\<close> and
  \<open>submitted_at\<close>, and the token stays unrevoked.
\<close>

theorem mark_submitted_leaves_token_live:
  "map (\<lambda>r. (status r, submitted_at r, map revoked (access_tokens r)))
     (invitations (snd (mark_invitation_submitted UUID_of_example no_membership_error 60
        (example_db started_invitation) ''0123456789abcdef'')))
   = [(Submitted, Some 60, [False])]"
  by (simp add: mark_invitation_submitted_def load_invitation_def commit_def or_now_def
        example_defs UUID_of_example_def Let_def)

text \<open>
  Before the start deadline (or without one), a start request for an invitation that is
  already \<open>started\<close> or \<open>submitted\<close> is rejected with 409 and writes nothing.
\<close>

lemma start_again_conflict:
  assumes "get_invitation_by_token hash_token db token = Inr invitation"
    and "status invitation = Started \<or> status invitation = Submitted"
    and "\<not> deadline_passed (start_deadline invitation) now"
  shows "start_assessment hash_token github now db token
           = (Inl (HTTPException 409 ''Assessment already started''), db)"
  using assms by (simp add: start_assessment_def)

text \<open>
  Claim C4. A second start request for an invitation that is already \<open>started\<close> should be
  rejected as a conflict with the status unchanged. \<open>start_assessment\<close> tests the start
  deadline before the status: once the deadline has passed, the second start request answers
  410 and persists the started invitation as \<open>expired\<close>.
\<close>

theorem restart_after_deadline_expires_started:
  "status started_invitation = Started
   \<and> start_assessment example_hash example_github 150 (example_db started_invitation) ''tok''
       = (Inl (HTTPException 410 ''Invitation start window has expired''),
          example_db (started_invitation\<lparr>status := Expired, expired_at := Some 150\<rparr>))"
  by (simp add: start_assessment_def get_invitation_by_token_def deadline_passed_def
        commit_def example_defs)

text \<open>
  Claim C3, as stated: no event changes the status of an invitation in \<open>submitted\<close>,
  \<open>revoked\<close> or \<open>expired\<close>. Admin revoke refuses only an invitation that is already
  \<open>revoked\<close>: it moves a submitted invitation to \<open>revoked\<close>.
\<close>

theorem submitted_not_terminal_counterexample:
  "status submitted_invitation = Submitted
   \<and> map status
        (invitations (snd (revoke_invitation UUID_of_example no_membership_error 70
           (example_db submitted_invitation) ''0123456789abcdef'')))
       = [Revoked]"
  by (simp add: revoke_invitation_def load_invitation_def commit_def or_now_def
        example_defs UUID_of_example_def Let_def)

text \<open>
  Claim C3, amended. For an invitation in \<open>submitted\<close>, \<open>revoked\<close> or \<open>expired\<close>: a submit
  request never writes; admin revoke writes nothing when the invitation is \<open>revoked\<close>, and
  moves a \<open>submitted\<close> or \<open>expired\<close> invitation to \<open>revoked\<close> (setting \<open>expired_at\<close> if it
  is unset); a start request is rejected with 409 and writes nothing when the invitation is
  \<open>submitted\<close> and its start deadline has not passed; a start request after the start
  deadline leaves an \<open>expired\<close> invitation \<open>expired\<close>.
\<close>

theorem terminal_states_amended:
  assumes "get_invitation_by_token hash_token db token = Inr invitation"
    and "UUID p = Some u"
    and "load_invitation db u = Inr invitation"
  shows "(status invitation \<in> {Submitted, Revoked, Expired}
            \<longrightarrow> snd (submit_assessment hash_token github now db token payload) = db)
       \<and> (status invitation = Revoked
            \<longrightarrow> snd (revoke_invitation UUID membership now db p) = db)
       \<and> (status invitation \<in> {Submitted, Expired}
            \<and> fst (revoke_invitation UUID membership now db p) = Inr answer
            \<longrightarrow> load_invitation (snd (revoke_invitation UUID membership now db p)) u
                  = Inr (invitation\<lparr>status := Revoked,
                                      expired_at := or_now (expired_at invitation) now\<rparr>))
       \<and> (status invitation = Submitted \<and> \<not> deadline_passed (start_deadline invitation) now
            \<longrightarrow> start_assessment hash_token github now db token
                  = (Inl (HTTPException 409 ''Assessment already started''), db))
       \<and> (status invitation = Expired \<and> deadline_passed (start_deadline invitation) now
            \<longrightarrow> get_invitation_by_token hash_token
                   (snd (start_assessment hash_token github now db token)) token
                  = Inr (invitation\<lparr>status := Expired, expired_at := Some now\<rparr>))"
proof (intro conjI impI)
  assume "status invitation \<in> {Submitted, Revoked, Expired}"
  then have "status invitation \<noteq> Started" by auto
  with assms(1) show "snd (submit_assessment hash_token github now db token payload) = db"
    by (simp add: submit_assessment_def split: option.splits)
next
  assume "status invitation = Revoked"
  with assms(2,3) show "snd (revoke_invitation UUID membership now db p) = db"
    by (simp add: revoke_invitation_def split: option.splits)
next
  assume h: "status invitation \<in> {Submitted, Expired}
            \<and> fst (revoke_invitation UUID membership now db p) = Inr answer"
  let ?changed = "invitation\<lparr>status := Revoked,
                     expired_at := or_now (expired_at invitation) now\<rparr>"
  from h have "status invitation \<noteq> Revoked" by auto
  moreover from h assms(2,3) obtain assessment_model where
    "assessment invitation = Some assessment_model"
    "membership (assessment_org_id assessment_model) = None"
    by (auto simp: revoke_invitation_def split: option.splits)
  ultimately have "snd (revoke_invitation UUID membership now db p) = commit db ?changed"
    using assms(2,3) by (simp add: revoke_invitation_def Let_def)
  moreover have "load_invitation (commit db ?changed) u = Inr ?changed"
    by (rule load_invitation_commit [OF assms(3)]) simp
  ultimately show "load_invitation (snd (revoke_invitation UUID membership now db p)) u
                     = Inr ?changed"
    by simp
next
  assume "status invitation = Submitted \<and> \<not> deadline_passed (start_deadline invitation) now"
  with assms(1) show "start_assessment hash_token github now db token
                        = (Inl (HTTPException 409 ''Assessment already started''), db)"
    by (simp add: start_assessment_def)
next
  assume h: "status invitation = Expired \<and> deadline_passed (start_deadline invitation) now"
  let ?changed = "invitation\<lparr>status := Expired, expired_at := Some now\<rparr>"
  from h assms(1) have "snd (start_assessment hash_token github now db token)
                          = commit db ?changed"
    by (simp add: start_assessment_def)
  moreover have "get_invitation_by_token hash_token (commit db ?changed) token = Inr ?changed"
    by (rule get_invitation_by_token_commit [OF assms(1)]) simp_all
  ultimately show "get_invitation_by_token hash_token
                     (snd (start_assessment hash_token github now db token)) token
                     = Inr ?changed"
    by simp
qed

theorem terminal_states_amended_witness:
  "snd (submit_assessment example_hash example_github 90 (example_db submitted_invitation)
          ''tok'' empty_payload)
     = example_db submitted_invitation
   \<and> load_invitation
        (snd (revoke_invitation UUID_of_example no_membership_error 90
                (example_db submitted_invitation) ''0123456789abcdef''))
        ''0123456789abcdef''
     = Inr (submitted_invitation\<lparr>status := Revoked, expired_at := Some 90\<rparr>)
   \<and> start_assessment example_hash example_github 90 (example_db submitted_invitation) ''tok''
     = (Inl (HTTPException 409 ''Assessment already started''),
        example_db submitted_invitation)
   \<and> snd (revoke_invitation UUID_of_example no_membership_error 90
            (example_db revoked_invitation) ''0123456789abcdef'')
     = example_db revoked_invitation
   \<and> get_invitation_by_token example_hash
        (snd (start_assessment example_hash example_github 150
                (example_db expired_invitation) ''tok'')) ''tok''
     = Inr (expired_invitation\<lparr>status := Expired, expired_at := Some 150\<rparr>)"
proof -
  let ?p = "''0123456789abcdef''"
  have parsed: "UUID_of_example ?p = Some ?p"
    by (simp add: UUID_of_example_def)
  have found:
    "get_invitation_by_token example_hash (example_db submitted_invitation) ''tok''
       = Inr submitted_invitation"
    "get_invitation_by_token example_hash (example_db revoked_invitation) ''tok''
       = Inr revoked_invitation"
    "get_invitation_by_token example_hash (example_db expired_invitation) ''tok''
       = Inr expired_invitation"
    by (simp_all add: example_defs get_invitation_by_token_def)
  have loaded:
    "load_invitation (example_db submitted_invitation) ?p = Inr submitted_invitation"
    "load_invitation (example_db revoked_invitation) ?p = Inr revoked_invitation"
    "load_invitation (example_db expired_invitation) ?p = Inr expired_invitation"
    by (simp_all add: example_defs load_invitation_def)
  have fields:
    "status submitted_invitation = Submitted" "start_deadline submitted_invitation = Some 100"
    "expired_at submitted_invitation = None"
    "status revoked_invitation = Revoked"
    "status expired_invitation = Expired" "start_deadline expired_invitation = Some 100"
    "assessment submitted_invitation = Some example_assessment"
    by (simp_all add: example_defs)
  have answered:
    "fst (revoke_invitation UUID_of_example no_membership_error 90
            (example_db submitted_invitation) ?p)
       = Inr (admin_invitation
                (submitted_invitation\<lparr>status := Revoked, expired_at := Some 90\<rparr>))"
    by (simp add: revoke_invitation_def parsed loaded fields or_now_def Let_def
          no_membership_error_def)
  note of_submitted =
    terminal_states_amended
      [where UUID = UUID_of_example and p = "''0123456789abcdef''"
         and github = example_github and now = 90 and payload = empty_payload
         and membership = no_membership_error
        and answer = "admin_invitation
                (submitted_invitation\<lparr>status := Revoked, expired_at := Some 90\<rparr>)",
       OF found(1) parsed loaded(1)]
  note of_revoked =
    terminal_states_amended
      [where UUID = UUID_of_example and p = "''0123456789abcdef''"
         and github = example_github and now = 90 and payload = empty_payload
         and membership = no_membership_error,
       OF found(2) parsed loaded(2)]
  note of_expired =
    terminal_states_amended
      [where UUID = UUID_of_example and p = "''0123456789abcdef''"
         and github = example_github and now = 150 and payload = empty_payload
         and membership = no_membership_error,
       OF found(3) parsed loaded(3)]
  from of_submitted answered
  have "snd (submit_assessment example_hash example_github 90 (example_db submitted_invitation)
          ''tok'' empty_payload) = example_db submitted_invitation"
    and "load_invitation
        (snd (revoke_invitation UUID_of_example no_membership_error 90
                (example_db submitted_invitation) ?p)) ?p
     = Inr (submitted_invitation\<lparr>status := Revoked, expired_at := Some 90\<rparr>)"
    and "start_assessment example_hash example_github 90 (example_db submitted_invitation) ''tok''
     = (Inl (HTTPException 409 ''Assessment already started''),
        example_db submitted_invitation)"
    by (simp_all add: fields deadline_passed_def or_now_def)
  moreover from of_revoked
  have "snd (revoke_invitation UUID_of_example no_membership_error 90
            (example_db revoked_invitation) ?p) = example_db revoked_invitation"
    by (simp add: fields)
  moreover from of_expired
  have "get_invitation_by_token example_hash
        (snd (start_assessment example_hash example_github 150
                (example_db expired_invitation) ''tok'')) ''tok''
     = Inr (expired_invitation\<lparr>status := Expired, expired_at := Some 150\<rparr>)"
    by (simp add: fields deadline_passed_def)
  ultimately show ?thesis by simp
qed

section \<open>The diff endpoint\<close>

lemmas diff_example_defs =
  example_compare_data_def example_fromisoformat_def not_found_response_def
  example_upstream_def swapped_only_upstream_def

lemma str_nat_404: "str_nat 404 = ''404''"
  by (simp add: digit_char_def)

lemma py_in_prefix: "py_in sub (sub @ ys)"
proof (cases "sub @ ys")
  case Nil
  then show ?thesis by simp
next
  case (Cons c cs)
  have "startswith (sub @ ys) sub"
    by (simp add: startswith_def)
  then show ?thesis
    by (simp add: Cons)
qed

lemma py_in_append: "py_in sub (xs @ sub @ ys)"
proof (induction xs)
  case Nil
  show ?case using py_in_prefix by simp
next
  case (Cons x xs)
  then show ?case by simp
qed

lemma failure_message_mentions_404:
  "mentions_not_found (failure_message path 404 detail)"
proof -
  have "failure_message path 404 detail
          = (''GitHub API request to '' @ path @ '' failed with '') @ ''404'' @ ('': '' @ detail)"
    by (simp add: failure_message_def digit_char_def)
  then show ?thesis
    unfolding mentions_not_found_def using py_in_append [of "''404''"] by metis
qed

text \<open>
  \<open>request\<close> never returns a response with status 404, whatever \<open>expected_status\<close> allows:
  the branches of \<open>get_repo_diff\<close> that test \<open>response.status_code == 404\<close> are never taken.
\<close>

lemma request_returns_success:
  "request outcome path expected_status = Inr response \<Longrightarrow> is_success (status_code response)"
  by (auto simp: request_def split: sum.splits if_splits)

lemma request_of_404:
  assumes "outcome = Inr response" and "status_code response = 404"
  shows "request outcome path [200, 404]
           = Inl (GitHubAppError (failure_message path 404 (response_text response)))"
  using assms by (simp add: request_def is_success_def)

text \<open>
  When the first compare answers 404, the endpoint reports "Could not compare repository"
  without asking for the swapped direction: the result does not depend on what the swapped
  compare would answer.
\<close>

lemma compare_first_404_is_final:
  assumes "get_compare upstream
             (''/repos/'' @ repo_name @ ''/compare/'' @ first_sha @ ''...'' @ head_branch)
             = Inr response"
    and "status_code response = 404"
  shows "compare_with_fallback upstream repo_name first_sha head_branch
           = Inl (RaisedHTTP (HTTPException 404
               (''Could not compare repository: ''
                @ failure_message
                    (''/repos/'' @ repo_name @ ''/compare/'' @ first_sha @ ''...'' @ head_branch)
                    404 (response_text response))))"
  using request_of_404 [OF assms]
  by (simp add: compare_with_fallback_def Let_def compare_handlers_def
        failure_message_mentions_404)

text \<open>
  Claim C8. When the first compare (oldest commit ... head branch) answers 404, the endpoint
  should retry with the operands swapped and report 404 only when both directions fail. With
  an upstream that answers 404 for \<open>abc1234...main\<close> and 200 for \<open>main...abc1234\<close>, the
  endpoint answers 404 "Could not compare repository": \<open>_request\<close> raises on the 404 before
  the retry is reached.
\<close>

theorem swapped_compare_not_tried:
  "map_sum id status_code
     (get_compare swapped_only_upstream ''/repos/acme/cand/compare/abc1234...main'') = Inr 404
   \<and> map_sum id status_code
     (get_compare swapped_only_upstream ''/repos/acme/cand/compare/main...abc1234'') = Inr 200
   \<and> get_repo_diff example_fromisoformat (Inr ''token'') swapped_only_upstream
        ''acme/cand'' ''main''
     = Inl (HTTPException 404
         (''Could not compare repository: GitHub API request to ''
          @ ''/repos/acme/cand/compare/abc1234...main failed with 404: Not Found''))"
proof -
  have first: "get_compare swapped_only_upstream
                 (''/repos/'' @ ''acme/cand'' @ ''/compare/'' @ ''abc1234'' @ ''...'' @ ''main'')
                 = Inr not_found_response"
    by (simp add: swapped_only_upstream_def)
  have "compare_with_fallback swapped_only_upstream ''acme/cand'' ''abc1234'' ''main''
          = Inl (RaisedHTTP (HTTPException 404
               (''Could not compare repository: ''
                @ failure_message ''/repos/acme/cand/compare/abc1234...main'' 404 ''Not Found'')))"
    using compare_first_404_is_final [OF first] by (simp add: not_found_response_def)
  then have "fetch_compare_data (Inr ''token'') swapped_only_upstream ''acme/cand'' ''main''
          = Inl (RaisedHTTP (HTTPException 404
               (''Could not compare repository: ''
                @ failure_message ''/repos/acme/cand/compare/abc1234...main'' 404 ''Not Found'')))"
    by (simp add: fetch_compare_data_def request_def is_success_def Let_def
          swapped_only_upstream_def example_upstream_def)
  then show ?thesis
    by (simp add: get_repo_diff_def diff_handlers_def failure_message_def digit_char_def
          swapped_only_upstream_def not_found_response_def)
qed

lemma files_loop_totals:
  "files_loop fs (acc, a, d)
     = (acc @ map diff_file fs,
        a + sum_list (map additions (map diff_file fs)),
        d + sum_list (map deletions (map diff_file fs)))"
  by (induction fs arbitrary: acc a d) (simp_all add: diff_file_def Let_def)

lemma diff_response_totals:
  assumes "diff_response fromisoformat head_branch compare_data = Inr response"
  shows "totalAdditions response = sum_list (map additions (files response))
       \<and> totalDeletions response = sum_list (map deletions (files response))
       \<and> totalChanges response = get_default (total_commits compare_data) 0"
  using assms
  by (auto simp: diff_response_def Let_def files_loop_totals split: option.splits)

text \<open>
  Claim C10. In every diff response, \<open>totalAdditions\<close> is the sum of the additions of the
  returned files, \<open>totalDeletions\<close> the sum of their deletions, and \<open>totalChanges\<close> is the
  \<open>total_commits\<close> of the compare result that GitHub returned (0 when the field is absent),
  not a sum over the files.
\<close>

theorem diff_totals:
  assumes "get_repo_diff fromisoformat token upstream repo_name head_branch = Inr response"
  shows "totalAdditions response = sum_list (map additions (files response))
       \<and> totalDeletions response = sum_list (map deletions (files response))
       \<and> (\<exists>compare_data.
             fetch_compare_data token upstream repo_name head_branch = Inr compare_data
           \<and> totalChanges response = get_default (total_commits compare_data) 0)"
proof (cases "fetch_compare_data token upstream repo_name head_branch")
  case (Inl r)
  with assms show ?thesis by (simp add: get_repo_diff_def)
next
  case (Inr compare_data)
  with assms have "diff_response fromisoformat head_branch compare_data = Inr response"
    by (simp add: get_repo_diff_def)
  from diff_response_totals [OF this] Inr show ?thesis by simp
qed

theorem diff_totals_witness:
  "\<exists>response.
     get_repo_diff example_fromisoformat (Inr ''token'') example_upstream ''acme/cand'' ''main''
       = Inr response
   \<and> map additions (files response) = [3, 5] \<and> totalAdditions response = 8
   \<and> map deletions (files response) = [1, 2] \<and> totalDeletions response = 3
   \<and> map changes (files response) = [4, 7] \<and> totalChanges response = 1
   \<and> fetch_compare_data (Inr ''token'') example_upstream ''acme/cand'' ''main''
       = Inr example_compare_data
   \<and> total_commits example_compare_data = Some 1"
proof -
  have fetched: "fetch_compare_data (Inr ''token'') example_upstream ''acme/cand'' ''main''
                   = Inr example_compare_data"
    by (simp add: fetch_compare_data_def compare_with_fallback_def request_def is_success_def
          Let_def example_upstream_def)
  obtain response where
    run: "get_repo_diff example_fromisoformat (Inr ''token'') example_upstream
            ''acme/cand'' ''main'' = Inr response"
    and shape: "map additions (files response) = [3, 5]"
      "map deletions (files response) = [1, 2]" "map changes (files response) = [4, 7]"
    by (simp add: get_repo_diff_def fetched diff_response_def Let_def example_compare_data_def
          example_fromisoformat_def get_default_def diff_file_def startswith_def)
  from diff_totals [OF run] fetched shape run
  show ?thesis
    by (auto simp: get_default_def example_compare_data_def)
qed

section \<open>The mirror clone and push\<close>

lemma rstrip_keeps_word:
  assumes "w \<noteq> []" and "\<not> P (last w)"
  shows "\<exists>n. rev (dropWhile P (rev (w @ xs))) = w @ take n xs"
proof (induction xs rule: rev_induct)
  case Nil
  from assms have "dropWhile P (rev w) = rev w"
    by (cases w rule: rev_cases) simp_all
  then show ?case by simp
next
  case (snoc x xs)
  then obtain n where kept: "rev (dropWhile P (rev (w @ xs))) = w @ take n xs"
    by blast
  show ?case
  proof (cases "P x")
    case True
    have "take (min n (length xs)) (xs @ [x]) = take n xs"
      by (cases "n \<le> length xs") (simp_all add: min_def)
    with True have "rev (dropWhile P (rev (w @ xs @ [x])))
                      = w @ take (min n (length xs)) (xs @ [x])"
      using kept by simp
    then show ?thesis by blast
  next
    case False
    then have "rev (dropWhile P (rev (w @ xs @ [x]))) = w @ take (Suc (length xs)) (xs @ [x])"
      by simp
    then show ?thesis by blast
  qed
qed

lemma strip_keeps_word:
  assumes "w \<noteq> []" and "\<not> py_isspace (hd w)" and "\<not> py_isspace (last w)"
  shows "\<exists>n. py_strip (w @ xs) = w @ take n xs"
proof -
  from assms(1,2) have "dropWhile py_isspace (w @ xs) = w @ xs"
    by (cases w) simp_all
  with rstrip_keeps_word [where P = py_isspace and w = w and xs = xs, OF assms(1,3)]
  show ?thesis
    by (simp add: py_strip_def)
qed

lemma first_line_of_word:
  assumes "CHR 0x0A \<notin> set w" and "t = [] \<or> hd t = CHR 0x0A"
  shows "first_line (w @ t) = w"
proof -
  from assms(2) have "takeWhile (\<lambda>c. c \<noteq> CHR 0x0A) t = []"
    by (cases t) auto
  moreover have "\<And>c. c \<in> set w \<Longrightarrow> c \<noteq> CHR 0x0A"
    using assms(1) by auto
  ultimately show ?thesis
    by (simp add: first_line_def takeWhile_append2)
qed

lemma split_words_word:
  assumes "\<forall>c \<in> set w. \<not> py_isspace c"
  shows "split_words word (w @ rest) = split_words (word @ w) rest"
  using assms by (induction w arbitrary: word) simp_all

lemma py_split_two_words:
  assumes "a \<noteq> []" and "b \<noteq> []"
    and "\<forall>c \<in> set a. \<not> py_isspace c" and "\<forall>c \<in> set b. \<not> py_isspace c"
  shows "py_split (a @ '' '' @ b) = [a, b]"
proof -
  have "split_words [] (a @ '' '' @ b) = split_words a ('' '' @ b)"
    using split_words_word [OF assms(3), of "[]"] by simp
  also have "\<dots> = a # split_words [] b"
    using assms(1) by (simp add: py_isspace_def)
  also have "split_words [] b = split_words b []"
    using split_words_word [OF assms(4), of "[]" "[]"] by simp
  finally show ?thesis
    using assms(2) by (simp add: py_split_def)
qed

lemma py_replace_absent:
  "\<not> py_in old s \<Longrightarrow> py_replace old new s = s"
  by (induction s) auto

lemma py_replace_branch_ref:
  "py_replace ''refs/heads/'' [] (''refs/heads/'' @ branch)
     = py_replace ''refs/heads/'' [] branch"
  by (simp add: startswith_def)

text \<open>
  The first line of \<open>git show-ref --heads\<close> is a SHA, a space and the ref of a branch.
  When \<open>rev-parse\<close> of the requested branch fails, \<open>resolve_branch\<close> returns that SHA,
  and as branch name what is left of the branch name after removing every occurrence of
  \<open>refs/heads/\<close> from it.
\<close>

lemma resolve_branch_first_ref:
  assumes "run_git git [''rev-parse'', ''refs/heads/'' @ source_branch] = Inl rev_parse_error"
    and "returncode (git [''show-ref'', ''--heads'']) = 0"
    and "stdout (git [''show-ref'', ''--heads''])
           = head_sha @ '' '' @ (''refs/heads/'' @ branch) @ rest"
    and "rest = [] \<or> hd rest = CHR 0x0A"
    and "head_sha \<noteq> []"
    and "\<forall>c \<in> set head_sha. \<not> py_isspace c"
    and "\<forall>c \<in> set branch. \<not> py_isspace c"
  shows "resolve_branch git source_branch
           = (Some head_sha, py_replace ''refs/heads/'' [] branch)"
proof -
  let ?ref = "''refs/heads/'' @ branch"
  let ?w = "head_sha @ '' '' @ ?ref"
  have ref_plain: "\<forall>c \<in> set ?ref. \<not> py_isspace c"
    using assms(7) by (auto simp: py_isspace_def)
  have w_nonempty: "?w \<noteq> []" by simp
  have w_head: "\<not> py_isspace (hd ?w)"
    using assms(5,6) by (cases head_sha) simp_all
  have w_last: "\<not> py_isspace (last ?w)"
    using ref_plain by (cases branch rule: rev_cases) (simp_all add: py_isspace_def)
  have w_one_line: "CHR 0x0A \<notin> set ?w"
    using assms(6) ref_plain by (auto simp: py_isspace_def)
  obtain n where once: "py_strip (?w @ rest) = ?w @ take n rest"
    using strip_keeps_word [where w = ?w and xs = rest, OF w_nonempty w_head w_last]
    by blast
  obtain m where twice: "py_strip (?w @ take n rest) = ?w @ take m (take n rest)"
    using strip_keeps_word [where w = ?w and xs = "take n rest", OF w_nonempty w_head w_last]
    by blast
  have tail: "take m (take n rest) = [] \<or> hd (take m (take n rest)) = CHR 0x0A"
    using assms(4) by (cases rest; cases n; cases m) auto
  have shown: "run_git git [''show-ref'', ''--heads''] = Inr (?w @ take n rest)"
    using assms(2,3) once by (simp add: run_git_def Let_def)
  have line: "first_line (py_strip (?w @ take n rest)) = ?w"
    unfolding twice by (rule first_line_of_word [OF w_one_line tail])
  have nonblank: "py_strip (?w @ take n rest) \<noteq> []"
    unfolding twice by simp
  have parts: "py_split ?w = [head_sha, ?ref]"
    by (rule py_split_two_words [OF assms(5) _ assms(6) ref_plain]) simp
  show ?thesis
    unfolding resolve_branch_def assms(1) shown
    using nonblank line parts py_replace_branch_ref [of branch]
    by (simp add: Let_def del: append_assoc append.simps py_replace.simps)
qed

lemma clone_and_push_first_ref:
  assumes "run_git git [''clone'', ''--mirror'', source_url, temp_dir @ ''/repo.git'']
             = Inr cloned"
    and "run_git git [''rev-parse'', ''refs/heads/'' @ source_branch] = Inl rev_parse_error"
    and "returncode (git [''show-ref'', ''--heads'']) = 0"
    and "stdout (git [''show-ref'', ''--heads''])
           = head_sha @ '' '' @ (''refs/heads/'' @ branch) @ rest"
    and "rest = [] \<or> hd rest = CHR 0x0A"
    and "head_sha \<noteq> []"
    and "\<forall>c \<in> set head_sha. \<not> py_isspace c"
    and "\<forall>c \<in> set branch. \<not> py_isspace c"
    and "run_git git [''remote'', ''set-url'', ''--push'', ''origin'', destination_url]
           = Inr repointed"
    and "run_git git [''push'', ''--mirror'', ''origin''] = Inr pushed"
  shows "clone_and_push git temp_dir source_url source_branch destination_url
           destination_branch
           = Inr (head_sha, py_replace ''refs/heads/'' [] branch)"
    and "\<not> py_in ''refs/heads/'' branch
         \<Longrightarrow> clone_and_push git temp_dir source_url source_branch destination_url
               destination_branch
               = Inr (head_sha, branch)"
proof -
  have "resolve_branch git source_branch
          = (Some head_sha, py_replace ''refs/heads/'' [] branch)"
    by (rule resolve_branch_first_ref [OF assms(2-8)])
  then show first: "clone_and_push git temp_dir source_url source_branch destination_url
           destination_branch
           = Inr (head_sha, py_replace ''refs/heads/'' [] branch)"
    using assms(1,9,10) by (simp add: clone_and_push_def Let_def)
  show "clone_and_push git temp_dir source_url source_branch destination_url
          destination_branch = Inr (head_sha, branch)"
    if "\<not> py_in ''refs/heads/'' branch"
    using first py_replace_absent [OF that] by simp
qed

text \<open>
  Without any branch ref (\<open>show-ref --heads\<close> fails or prints nothing) the operation fails
  with a \<open>GitHubAppError\<close>.
\<close>

lemma clone_and_push_no_refs:
  assumes "run_git git [''clone'', ''--mirror'', source_url, temp_dir @ ''/repo.git'']
             = Inr cloned"
    and "run_git git [''rev-parse'', ''refs/heads/'' @ source_branch] = Inl rev_parse_error"
    and "returncode (git [''show-ref'', ''--heads'']) \<noteq> 0
         \<or> py_strip (stdout (git [''show-ref'', ''--heads''])) = []"
  shows "clone_and_push git temp_dir source_url source_branch destination_url
           destination_branch
           = Inl (branch_not_found source_branch)"
proof -
  have "run_git git [''show-ref'', ''--heads''] = Inr [] \<or>
        (\<exists>e. run_git git [''show-ref'', ''--heads''] = Inl e)"
    using assms(3) by (auto simp: run_git_def Let_def)
  then have "resolve_branch git source_branch = (None, source_branch)"
    using assms(2) by (auto simp: resolve_branch_def py_strip_def)
  then show ?thesis
    using assms(1) by (simp add: clone_and_push_def Let_def)
qed

text \<open>The example of the specification: the hint is \<open>main\<close>, the only branch is \<open>master\<close>.\<close>

lemma clone_and_push_master:
  "clone_and_push (git_with_heads (''0123abc refs/heads/master'' @ [CHR 0x0A]))
     ''/tmp/mirror'' ''https://github.com/acme/source.git'' ''main''
     ''https://github.com/acme/seed.git'' ''main''
     = Inr (''0123abc'', ''master'')"
  by (simp add: clone_and_push_def resolve_branch_def run_git_def git_with_heads_def
        py_strip_def py_isspace_def first_line_def py_split_def startswith_def Let_def)

text \<open>
  Claim C7. When the requested branch is missing, the operation should return the head SHA
  and the name of the first enumerated branch. The name is obtained from the ref with
  \<open>str.replace\<close>, which removes every occurrence of \<open>refs/heads/\<close> and not only the
  leading one: for a repository whose first branch is \<open>a/refs/heads/b\<close> the operation
  returns the name \<open>a/b\<close>, which is not a branch of the repository.
\<close>

theorem first_branch_name_mangled:
  "clone_and_push (git_with_heads (''0123abc refs/heads/a/refs/heads/b'' @ [CHR 0x0A]))
     ''/tmp/mirror'' ''https://github.com/acme/source.git'' ''main''
     ''https://github.com/acme/seed.git'' ''main''
     = Inr (''0123abc'', ''a/b'')"
  by (simp add: clone_and_push_def resolve_branch_def run_git_def git_with_heads_def
        py_strip_def py_isspace_def first_line_def py_split_def startswith_def Let_def)

end
